theory Spec2Isabelle
  imports Complex_Main "HOL-Library.Word" "HOL-Library.Sublist"
begin

section \<open>Values of the host language\<close>

text \<open>
  A string of the source language is a sequence of 16-bit code units. A literal of the
  source is written \<open>js ''...''\<close>.
\<close>

type_synonym code_unit = "16 word"

type_synonym jsstring = "code_unit list"

definition js :: "string \<Rightarrow> jsstring" where
  "js s = map of_char s"

text \<open>
  A number of the source language: the not-a-number sentinel, the two infinities, the
  negative zero, or a finite value (the finite doubles are rationals).
\<close>

datatype jsnum = NaN | PosInfinity | NegInfinity | NegZero | Finite rat

text \<open>The exceptions the operations used by \<open>config.ts\<close> can raise.\<close>

datatype js_error = TypeError | ReferenceError | InvalidCharacterError | SecurityError

definition bind_result :: "js_error + 'a \<Rightarrow> ('a \<Rightarrow> js_error + 'b) \<Rightarrow> js_error + 'b" where
  "bind_result r f = (case r of Inl e \<Rightarrow> Inl e | Inr v \<Rightarrow> f v)"

section \<open>The environment-variable source\<close>

text \<open>
  \<open>import.meta.env\<close> as the build tool provides it: the string-valued variables and the
  two build-mode flags \<open>DEV\<close> and \<open>PROD\<close>. \<open>import.meta\<close> itself may be undefined, and
  so may its \<open>env\<close>.
\<close>

record vite_env =
  vars :: "jsstring \<rightharpoonup> jsstring"
  env_DEV :: bool
  env_PROD :: bool

datatype import_meta = ImportMetaUndefined | ImportMeta "vite_env option"

text \<open>\<open>import.meta.env\<close>: reading a property of \<open>undefined\<close> raises.\<close>

definition meta_env :: "import_meta \<Rightarrow> js_error + vite_env option" where
  "meta_env meta = (case meta of ImportMetaUndefined \<Rightarrow> Inl TypeError | ImportMeta e \<Rightarrow> Inr e)"

text \<open>\<open>env[key]\<close>: \<open>None\<close> is \<open>undefined\<close>, the value of a key that is not there.\<close>

definition env_index :: "vite_env option \<Rightarrow> jsstring \<Rightarrow> js_error + jsstring option" where
  "env_index e key = (case e of None \<Rightarrow> Inl TypeError | Some v \<Rightarrow> Inr (vars v key))"

text \<open>\<open>x || d\<close> on a string or \<open>undefined\<close>: the empty string and \<open>undefined\<close> are falsy.\<close>

definition or_default :: "jsstring option \<Rightarrow> jsstring \<Rightarrow> jsstring" where
  "or_default x d = (case x of None \<Rightarrow> d | Some s \<Rightarrow> if s = [] then d else s)"

section \<open>The environment readers\<close>

definition getEnv :: "jsstring \<Rightarrow> jsstring \<Rightarrow> import_meta \<Rightarrow> js_error + jsstring" where
  "getEnv key defaultValue meta =
     (if meta = ImportMetaUndefined then Inr defaultValue
      else bind_result (meta_env meta) (\<lambda>e.
        if e = None then Inr defaultValue
        else bind_result (meta_env meta) (\<lambda>e'.
             bind_result (env_index e' key) (\<lambda>v.
             Inr (or_default v defaultValue)))))"

definition getEnvBoolean :: "jsstring \<Rightarrow> bool \<Rightarrow> import_meta \<Rightarrow> js_error + bool" where
  "getEnvBoolean key defaultValue meta =
     bind_result (getEnv key [] meta) (\<lambda>v. Inr (v = js ''true'' \<or> defaultValue))"

text \<open>
  \<open>Number\<close> is the host's conversion of a string to a number; it is a parameter of the
  model and is called on non-empty strings only.
\<close>

definition getEnvNumber ::
  "(jsstring \<Rightarrow> jsnum) \<Rightarrow> jsstring \<Rightarrow> jsnum \<Rightarrow> import_meta \<Rightarrow> js_error + jsnum" where
  "getEnvNumber Number key defaultValue meta =
     bind_result (getEnv key [] meta) (\<lambda>v.
       Inr (if v \<noteq> [] then Number v else defaultValue))"

text \<open>
  What the environment holds under a key, for stating the properties: \<open>None\<close> when the
  variable is absent or there is no environment to read.
\<close>

definition env_var :: "import_meta \<Rightarrow> jsstring \<Rightarrow> jsstring option" where
  "env_var meta key =
     (case meta of ImportMetaUndefined \<Rightarrow> None
      | ImportMeta None \<Rightarrow> None
      | ImportMeta (Some e) \<Rightarrow> vars e key)"

definition unset :: "import_meta \<Rightarrow> jsstring \<Rightarrow> bool" where
  "unset meta key = (env_var meta key = None \<or> env_var meta key = Some [])"

section \<open>The host's \<open>btoa\<close> and \<open>split\<close>\<close>

definition b64_alphabet :: string where
  "b64_alphabet = ''ABCDEFGHIJKLMNOPQRSTUVWXYZabcdefghijklmnopqrstuvwxyz0123456789+/''"

text \<open>The character of a sextet; every index below is less than 64.\<close>

definition b64_char :: "nat \<Rightarrow> code_unit" where
  "b64_char n = of_char (b64_alphabet ! (n mod 64))"

text \<open>Base64 (RFC 4648) of a sequence of bytes: three bytes give four characters.\<close>

fun base64 :: "nat list \<Rightarrow> jsstring" where
  "base64 (a # b # c # rest) =
     [b64_char (a div 4), b64_char ((a mod 4) * 16 + b div 16 mod 16),
      b64_char ((b mod 16) * 4 + c div 64 mod 4), b64_char (c mod 64)] @ base64 rest"
| "base64 [a, b] =
     [b64_char (a div 4), b64_char ((a mod 4) * 16 + b div 16 mod 16),
      b64_char ((b mod 16) * 4), of_char CHR ''='']"
| "base64 [a] =
     [b64_char (a div 4), b64_char ((a mod 4) * 16), of_char CHR ''='', of_char CHR ''='']"
| "base64 [] = []"

text \<open>
  \<open>btoa\<close> takes each code unit as one byte, and raises \<open>InvalidCharacterError\<close> on a
  string that has a code unit above \<open>0xFF\<close>.
\<close>

definition btoa :: "jsstring \<Rightarrow> js_error + jsstring" where
  "btoa s = (if list_all (\<lambda>u. u \<le> 255) s then Inr (base64 (map unat s))
             else Inl InvalidCharacterError)"

text \<open>
  \<open>s.split(sep)\<close> for a separator of one code unit: the segments between the
  separators, in order; the empty string gives one empty segment.
\<close>

fun js_split :: "code_unit \<Rightarrow> jsstring \<Rightarrow> jsstring list" where
  "js_split sep [] = [] # []"
| "js_split sep (c # cs) =
     (if c = sep then [] # js_split sep cs
      else (case js_split sep cs of [] \<Rightarrow> [c] # [] | w # ws \<Rightarrow> (c # w) # ws))"

definition comma :: code_unit where
  "comma = of_char CHR '',''"

text \<open>\<open>xs.filter(Boolean)\<close> on strings keeps the non-empty ones.\<close>

definition filter_Boolean :: "jsstring list \<Rightarrow> jsstring list" where
  "filter_Boolean xs = filter (\<lambda>s. s \<noteq> []) xs"

section \<open>The configuration object\<close>

record api_config =
  geodir :: jsstring
  wordpress :: jsstring
  dokan :: jsstring
  timeout :: jsnum

record auth_config =
  username :: jsstring
  appPassword :: jsstring
  token :: jsstring
  jwtSecret :: jsstring
  jwtExpiration :: jsstring

record stripe_config =
  publishableKey :: jsstring
  secretKey :: jsstring

record paypal_config =
  clientId :: jsstring
  secret :: jsstring

record services_config =
  unsplash :: jsstring
  googleMaps :: jsstring
  stripe :: stripe_config
  paypal :: paypal_config

text \<open>
  The two build-mode fields hold \<open>false\<close> when \<open>import.meta\<close> is undefined, \<open>undefined\<close>
  (here \<open>None\<close>) when its \<open>env\<close> is, and the flag otherwise.
\<close>

record app_config =
  env :: jsstring
  url :: jsstring
  isDevelopment :: "bool option"
  isProduction :: "bool option"

record pagination_config =
  defaultPerPage :: jsnum
  maxPerPage :: jsnum

record features_config =
  reviews :: bool
  wishlist :: bool
  chat :: bool
  notifications :: bool

record smtp_config =
  host :: jsstring
  port :: jsnum
  user :: jsstring
  password :: jsstring

text \<open>The field \<open>from\<close> of the source is \<open>from_addr\<close> here.\<close>

record email_config =
  smtp :: smtp_config
  from_addr :: jsstring
  fromName :: jsstring

record aws_config =
  accessKeyId :: jsstring
  secretAccessKey :: jsstring
  region :: jsstring
  bucket :: jsstring

record storage_config =
  cdnUrl :: jsstring
  aws :: aws_config

record analytics_config =
  googleAnalytics :: jsstring
  facebookPixel :: jsstring
  sentry :: jsstring

record rateLimit_config =
  requests :: jsnum
  window :: jsnum

record security_config =
  corsOrigins :: "jsstring list"
  rateLimit :: rateLimit_config
  sessionSecret :: jsstring

record configuration =
  api :: api_config
  auth :: auth_config
  services :: services_config
  app :: app_config
  pagination :: pagination_config
  features :: features_config
  email :: email_config
  storage :: storage_config
  analytics :: analytics_config
  security :: security_config

text \<open>
  \<open>typeof import.meta !== 'undefined' && import.meta.env && import.meta.env.F\<close> for a
  build-mode flag \<open>F\<close>.
\<close>

definition env_flag :: "(vite_env \<Rightarrow> bool) \<Rightarrow> vite_env option \<Rightarrow> js_error + bool" where
  "env_flag F e = (case e of None \<Rightarrow> Inl TypeError | Some v \<Rightarrow> Inr (F v))"

definition build_flag :: "(vite_env \<Rightarrow> bool) \<Rightarrow> import_meta \<Rightarrow> js_error + bool option" where
  "build_flag F meta =
     (if meta = ImportMetaUndefined then Inr (Some False)
      else bind_result (meta_env meta) (\<lambda>e.
        if e = None then Inr None
        else bind_result (meta_env meta) (\<lambda>e'.
             bind_result (env_flag F e') (\<lambda>b. Inr (Some b)))))"

text \<open>
  The module builds \<open>config\<close> once, when it is loaded, reading each variable in the order
  of the object literal.
\<close>

definition config :: "(jsstring \<Rightarrow> jsnum) \<Rightarrow> import_meta \<Rightarrow> js_error + configuration" where
  "config Number meta =
     bind_result (getEnv (js ''VITE_GEODIR_API_URL'') (js ''https://shoplocal.kinsta.cloud/wp-json/geodir/v2'') meta) (\<lambda>v_geodir.
     bind_result (getEnv (js ''VITE_WP_API_URL'') (js ''https://shoplocal.kinsta.cloud/wp-json/wp/v2'') meta) (\<lambda>v_wordpress.
     bind_result (getEnv (js ''VITE_DOKAN_API_URL'') (js ''https://shoplocal.kinsta.cloud/wp-json/dokan/v1'') meta) (\<lambda>v_dokan.
     bind_result (getEnvNumber Number (js ''VITE_API_TIMEOUT'') (Finite 10000) meta) (\<lambda>v_timeout.
     bind_result (getEnv (js ''VITE_WP_USERNAME'') [] meta) (\<lambda>v_username.
     bind_result (getEnv (js ''VITE_WP_APP_PASSWORD'') [] meta) (\<lambda>v_appPassword.
     bind_result (getEnv (js ''VITE_API_AUTH_TOKEN'') [] meta) (\<lambda>v_token.
     bind_result (getEnv (js ''VITE_JWT_SECRET'') [] meta) (\<lambda>v_jwtSecret.
     bind_result (getEnv (js ''VITE_JWT_EXPIRATION'') (js ''7d'') meta) (\<lambda>v_jwtExpiration.
     bind_result (getEnv (js ''VITE_UNSPLASH_ACCESS_KEY'') [] meta) (\<lambda>v_unsplash.
     bind_result (getEnv (js ''VITE_GOOGLE_MAPS_API_KEY'') [] meta) (\<lambda>v_googleMaps.
     bind_result (getEnv (js ''VITE_STRIPE_PUBLISHABLE_KEY'') [] meta) (\<lambda>v_publishableKey.
     bind_result (getEnv (js ''VITE_STRIPE_SECRET_KEY'') [] meta) (\<lambda>v_secretKey.
     bind_result (getEnv (js ''VITE_PAYPAL_CLIENT_ID'') [] meta) (\<lambda>v_clientId.
     bind_result (getEnv (js ''VITE_PAYPAL_SECRET'') [] meta) (\<lambda>v_secret.
     bind_result (getEnv (js ''VITE_APP_ENV'') (js ''development'') meta) (\<lambda>v_env.
     bind_result (getEnv (js ''VITE_APP_URL'') (js ''http://localhost:5173'') meta) (\<lambda>v_url.
     bind_result (build_flag env_DEV meta) (\<lambda>v_isDevelopment.
     bind_result (build_flag env_PROD meta) (\<lambda>v_isProduction.
     bind_result (getEnvNumber Number (js ''VITE_DEFAULT_PER_PAGE'') (Finite 20) meta) (\<lambda>v_defaultPerPage.
     bind_result (getEnvNumber Number (js ''VITE_MAX_PER_PAGE'') (Finite 100) meta) (\<lambda>v_maxPerPage.
     bind_result (getEnvBoolean (js ''VITE_ENABLE_REVIEWS'') True meta) (\<lambda>v_reviews.
     bind_result (getEnvBoolean (js ''VITE_ENABLE_WISHLIST'') True meta) (\<lambda>v_wishlist.
     bind_result (getEnvBoolean (js ''VITE_ENABLE_CHAT'') False meta) (\<lambda>v_chat.
     bind_result (getEnvBoolean (js ''VITE_ENABLE_NOTIFICATIONS'') True meta) (\<lambda>v_notifications.
     bind_result (getEnv (js ''VITE_SMTP_HOST'') [] meta) (\<lambda>v_host.
     bind_result (getEnvNumber Number (js ''VITE_SMTP_PORT'') (Finite 587) meta) (\<lambda>v_port.
     bind_result (getEnv (js ''VITE_SMTP_USER'') [] meta) (\<lambda>v_user.
     bind_result (getEnv (js ''VITE_SMTP_PASSWORD'') [] meta) (\<lambda>v_password.
     bind_result (getEnv (js ''VITE_SMTP_FROM'') (js ''noreply@shoplocal.com'') meta) (\<lambda>v_from.
     bind_result (getEnv (js ''VITE_SMTP_FROM_NAME'') (js ''ShopLocal Marketplace'') meta) (\<lambda>v_fromName.
     bind_result (getEnv (js ''VITE_CDN_URL'') [] meta) (\<lambda>v_cdnUrl.
     bind_result (getEnv (js ''VITE_AWS_ACCESS_KEY_ID'') [] meta) (\<lambda>v_accessKeyId.
     bind_result (getEnv (js ''VITE_AWS_SECRET_ACCESS_KEY'') [] meta) (\<lambda>v_secretAccessKey.
     bind_result (getEnv (js ''VITE_AWS_REGION'') (js ''us-east-1'') meta) (\<lambda>v_region.
     bind_result (getEnv (js ''VITE_AWS_S3_BUCKET'') [] meta) (\<lambda>v_bucket.
     bind_result (getEnv (js ''VITE_GA_TRACKING_ID'') [] meta) (\<lambda>v_googleAnalytics.
     bind_result (getEnv (js ''VITE_FB_PIXEL_ID'') [] meta) (\<lambda>v_facebookPixel.
     bind_result (getEnv (js ''VITE_SENTRY_DSN'') [] meta) (\<lambda>v_sentry.
     bind_result (getEnv (js ''VITE_CORS_ORIGINS'') [] meta) (\<lambda>v_cors.
     bind_result (getEnvNumber Number (js ''VITE_RATE_LIMIT_REQUESTS'') (Finite 100) meta) (\<lambda>v_requests.
     bind_result (getEnvNumber Number (js ''VITE_RATE_LIMIT_WINDOW'') (Finite 900000) meta) (\<lambda>v_window.
     bind_result (getEnv (js ''VITE_SESSION_SECRET'') [] meta) (\<lambda>v_sessionSecret.
     Inr \<lparr>
       api = \<lparr>geodir = v_geodir, wordpress = v_wordpress, dokan = v_dokan,
              timeout = v_timeout\<rparr>,
       auth = \<lparr>username = v_username, appPassword = v_appPassword, token = v_token,
               jwtSecret = v_jwtSecret, jwtExpiration = v_jwtExpiration\<rparr>,
       services = \<lparr>unsplash = v_unsplash, googleMaps = v_googleMaps,
                   stripe = \<lparr>publishableKey = v_publishableKey, secretKey = v_secretKey\<rparr>,
                   paypal = \<lparr>clientId = v_clientId, secret = v_secret\<rparr>\<rparr>,
       app = \<lparr>env = v_env, url = v_url, isDevelopment = v_isDevelopment,
              isProduction = v_isProduction\<rparr>,
       pagination = \<lparr>defaultPerPage = v_defaultPerPage, maxPerPage = v_maxPerPage\<rparr>,
       features = \<lparr>reviews = v_reviews, wishlist = v_wishlist, chat = v_chat,
                   notifications = v_notifications\<rparr>,
       email = \<lparr>smtp = \<lparr>host = v_host, port = v_port, user = v_user,
                       password = v_password\<rparr>,
                from_addr = v_from, fromName = v_fromName\<rparr>,
       storage = \<lparr>cdnUrl = v_cdnUrl,
                  aws = \<lparr>accessKeyId = v_accessKeyId, secretAccessKey = v_secretAccessKey,
                         region = v_region, bucket = v_bucket\<rparr>\<rparr>,
       analytics = \<lparr>googleAnalytics = v_googleAnalytics, facebookPixel = v_facebookPixel,
                    sentry = v_sentry\<rparr>,
       security = \<lparr>corsOrigins = filter_Boolean (js_split comma v_cors),
                   rateLimit = \<lparr>requests = v_requests, window = v_window\<rparr>,
                   sessionSecret = v_sessionSecret\<rparr>
     \<rparr>)))))))))))))))))))))))))))))))))))))))))))"

section \<open>The accessor functions\<close>

text \<open>
  The host in which \<open>getAuthHeader\<close> runs. The identifier \<open>window\<close> is undeclared or
  undefined (outside a browser), \<open>null\<close>, or an object. Reading \<open>localStorage\<close> runs a
  getter, which raises \<open>SecurityError\<close> where the browser denies storage, and otherwise
  gives the store or \<open>null\<close>/\<open>undefined\<close> (here \<open>None\<close>). The source reads the property
  \<open>window.localStorage\<close> for its test and the bare identifier \<open>localStorage\<close> for the item,
  so the host has both: in a browser \<open>window\<close> is the global object and the two agree, in
  another host that defines a \<open>window\<close> the global identifier may be undeclared. A store
  maps a key to its item; \<open>getItem\<close> gives \<open>null\<close> (here \<open>None\<close>) for a key that is not
  there.
\<close>

datatype storage_read = ReadDenied | ReadGives "(jsstring \<rightharpoonup> jsstring) option"

datatype window_state = WindowUndefined | WindowNull | Window storage_read

datatype global_binding = Undeclared | Declared storage_read

record host =
  host_window :: window_state
  host_localStorage :: global_binding

definition read_storage :: "storage_read \<Rightarrow> js_error + (jsstring \<rightharpoonup> jsstring) option" where
  "read_storage r = (case r of ReadDenied \<Rightarrow> Inl SecurityError | ReadGives st \<Rightarrow> Inr st)"

text \<open>\<open>window.localStorage\<close>.\<close>

definition window_localStorage :: "window_state \<Rightarrow> js_error + (jsstring \<rightharpoonup> jsstring) option" where
  "window_localStorage win =
     (case win of
        WindowUndefined \<Rightarrow> Inl ReferenceError
      | WindowNull \<Rightarrow> Inl TypeError
      | Window r \<Rightarrow> read_storage r)"

text \<open>The identifier \<open>localStorage\<close>.\<close>

definition global_localStorage :: "global_binding \<Rightarrow> js_error + (jsstring \<rightharpoonup> jsstring) option" where
  "global_localStorage g =
     (case g of Undeclared \<Rightarrow> Inl ReferenceError | Declared r \<Rightarrow> read_storage r)"

definition getItem :: "(jsstring \<rightharpoonup> jsstring) option \<Rightarrow> jsstring \<Rightarrow> js_error + jsstring option" where
  "getItem st key = (case st of None \<Rightarrow> Inl TypeError | Some m \<Rightarrow> Inr (m key))"

definition getAuthHeader :: "configuration \<Rightarrow> host \<Rightarrow> js_error + jsstring" where
  "getAuthHeader cfg h =
     (if token (auth cfg) \<noteq> [] then Inr (js ''Basic '' @ token (auth cfg))
      else if username (auth cfg) \<noteq> [] \<and> appPassword (auth cfg) \<noteq> [] then
        bind_result (btoa (username (auth cfg) @ js '':'' @ appPassword (auth cfg))) (\<lambda>t.
        Inr (js ''Basic '' @ t))
      else if host_window h = WindowUndefined then Inr []
      else bind_result (window_localStorage (host_window h)) (\<lambda>st.
        if st = None then Inr []
        else bind_result (global_localStorage (host_localStorage h)) (\<lambda>ls.
             bind_result (getItem ls (js ''authToken'')) (\<lambda>storedToken.
          (case storedToken of
             None \<Rightarrow> Inr []
           | Some s \<Rightarrow> if s \<noteq> [] then Inr (js ''Basic '' @ s) else Inr [])))))"

datatype feature = Reviews | Wishlist | Chat | Notifications

fun isFeatureEnabled :: "configuration \<Rightarrow> feature \<Rightarrow> bool" where
  "isFeatureEnabled cfg Reviews = reviews (features cfg)"
| "isFeatureEnabled cfg Wishlist = wishlist (features cfg)"
| "isFeatureEnabled cfg Chat = chat (features cfg)"
| "isFeatureEnabled cfg Notifications = notifications (features cfg)"

datatype service = Geodir | Wordpress | Dokan

fun getApiUrl :: "configuration \<Rightarrow> service \<Rightarrow> jsstring" where
  "getApiUrl cfg Geodir = geodir (api cfg)"
| "getApiUrl cfg Wordpress = wordpress (api cfg)"
| "getApiUrl cfg Dokan = dokan (api cfg)"

text \<open>
  For stating the properties: no token and not both a user name and a password, so that
  \<open>getAuthHeader\<close> goes on to the local storage; and the strings \<open>btoa\<close> accepts.
\<close>

definition no_credentials :: "configuration \<Rightarrow> bool" where
  "no_credentials cfg =
     (token (auth cfg) = [] \<and> (username (auth cfg) = [] \<or> appPassword (auth cfg) = []))"

definition latin1 :: "jsstring \<Rightarrow> bool" where
  "latin1 s = list_all (\<lambda>u. u \<le> 255) s"


section \<open>Notions used to state the properties\<close>

text \<open>Joining segments with a separator, the inverse of splitting.\<close>

fun js_join :: "code_unit \<Rightarrow> jsstring list \<Rightarrow> jsstring" where
  "js_join sep [] = []"
| "js_join sep [w] = w"
| "js_join sep (w # v # ws) = w @ sep # js_join sep (v # ws)"

text \<open>
  Concrete inputs. \<open>env_of kvs\<close> is a development build whose environment holds exactly
  the variables \<open>kvs\<close>; \<open>credentials_config tok usr pwd\<close> is the configuration object
  that the module builds when at most the three credentials are set. \<open>browser items\<close> is
  a browser whose local storage holds \<open>items\<close>, \<open>browser_storage_denied\<close> one that denies
  storage, \<open>server_host\<close> a host with no \<open>window\<close>, and \<open>window_shim\<close> a host with a
  \<open>window\<close> object of its own that is not the global object. \<open>Number_stub\<close> stands for
  the host's \<open>Number\<close> where no numeric variable is set.
\<close>

definition browser :: "(jsstring \<times> jsstring) list \<Rightarrow> host" where
  "browser items =
     \<lparr>host_window = Window (ReadGives (Some (map_of items))),
      host_localStorage = Declared (ReadGives (Some (map_of items)))\<rparr>"

definition browser_storage_denied :: host where
  "browser_storage_denied =
     \<lparr>host_window = Window ReadDenied, host_localStorage = Declared ReadDenied\<rparr>"

definition server_host :: host where
  "server_host = \<lparr>host_window = WindowUndefined, host_localStorage = Undeclared\<rparr>"

definition window_shim :: host where
  "window_shim =
     \<lparr>host_window = Window (ReadGives (Some (map_of []))), host_localStorage = Undeclared\<rparr>"

definition Number_stub :: "jsstring \<Rightarrow> jsnum" where
  "Number_stub s = (if s = js ''0'' then Finite 0 else NaN)"

definition env_of :: "(jsstring \<times> jsstring) list \<Rightarrow> import_meta" where
  "env_of kvs = ImportMeta (Some \<lparr>vars = map_of kvs, env_DEV = True, env_PROD = False\<rparr>)"

definition credentials_config :: "jsstring \<Rightarrow> jsstring \<Rightarrow> jsstring \<Rightarrow> configuration" where
  "credentials_config tok usr pwd =
     \<lparr>api = \<lparr>geodir = js ''https://shoplocal.kinsta.cloud/wp-json/geodir/v2'',
             wordpress = js ''https://shoplocal.kinsta.cloud/wp-json/wp/v2'',
             dokan = js ''https://shoplocal.kinsta.cloud/wp-json/dokan/v1'',
             timeout = Finite 10000\<rparr>,
      auth = \<lparr>username = usr, appPassword = pwd, token = tok, jwtSecret = [],
              jwtExpiration = js ''7d''\<rparr>,
      services = \<lparr>unsplash = [], googleMaps = [],
                  stripe = \<lparr>publishableKey = [], secretKey = []\<rparr>,
                  paypal = \<lparr>clientId = [], secret = []\<rparr>\<rparr>,
      app = \<lparr>env = js ''development'', url = js ''http://localhost:5173'',
             isDevelopment = Some True, isProduction = Some False\<rparr>,
      pagination = \<lparr>defaultPerPage = Finite 20, maxPerPage = Finite 100\<rparr>,
      features = \<lparr>reviews = True, wishlist = True, chat = False, notifications = True\<rparr>,
      email = \<lparr>smtp = \<lparr>host = [], port = Finite 587, user = [], password = []\<rparr>,
               from_addr = js ''noreply@shoplocal.com'',
               fromName = js ''ShopLocal Marketplace''\<rparr>,
      storage = \<lparr>cdnUrl = [],
                 aws = \<lparr>accessKeyId = [], secretAccessKey = [], region = js ''us-east-1'',
                        bucket = []\<rparr>\<rparr>,
      analytics = \<lparr>googleAnalytics = [], facebookPixel = [], sentry = []\<rparr>,
      security = \<lparr>corsOrigins = [],
                  rateLimit = \<lparr>requests = Finite 100, window = Finite 900000\<rparr>,
                  sessionSecret = []\<rparr>\<rparr>"

section \<open>Auxiliary facts\<close>

lemma bind_result_Inr [simp]: "bind_result (Inr v) f = f v"
  by (simp add: bind_result_def)

lemma bind_result_Inl [simp]: "bind_result (Inl e) f = Inl e"
  by (simp add: bind_result_def)

lemma unat_of_char_16: "unat (of_char c :: code_unit) = of_char c"
proof -
  have "(of_char c :: nat) < 256" by (rule nat_of_char_less_256)
  then have "(of_char c :: nat) < 65536" by linarith
  then have "(of_char c :: nat) mod 65536 = of_char c" by simp
  moreover have "(of_char c :: code_unit) = of_nat (of_char c)" by (simp add: of_nat_of_char)
  ultimately show ?thesis by (simp add: unat_of_nat)
qed

lemma js_eq_iff [simp]: "js a = js b \<longleftrightarrow> a = b"
proof -
  have "inj (of_char :: char \<Rightarrow> code_unit)"
  proof (rule injI)
    fix c d :: char
    assume "(of_char c :: code_unit) = of_char d"
    then have "unat (of_char c :: code_unit) = unat (of_char d :: code_unit)" by simp
    then show "c = d" by (simp add: unat_of_char_16)
  qed
  then show ?thesis by (simp add: js_def inj_map_eq_map)
qed

lemma js_Nil_iff [simp]: "js a = [] \<longleftrightarrow> a = []" "[] = js a \<longleftrightarrow> a = []"
  by (auto simp add: js_def)

lemma getEnv_eq: "getEnv key d meta = Inr (or_default (env_var meta key) d)"
proof (cases meta)
  case ImportMetaUndefined
  then show ?thesis by (simp add: getEnv_def env_var_def or_default_def)
next
  case (ImportMeta e)
  then show ?thesis
    by (cases e) (simp_all add: getEnv_def env_var_def or_default_def meta_env_def env_index_def)
qed

lemma getEnvBoolean_eq:
  "getEnvBoolean key d meta = Inr (or_default (env_var meta key) [] = js ''true'' \<or> d)"
  by (simp add: getEnvBoolean_def getEnv_eq)

lemma getEnvNumber_eq:
  "getEnvNumber N key d meta =
     Inr (if or_default (env_var meta key) [] \<noteq> [] then N (or_default (env_var meta key) []) else d)"
  by (simp add: getEnvNumber_def getEnv_eq)

lemma build_flag_eq:
  "build_flag F meta =
     Inr (case meta of ImportMetaUndefined \<Rightarrow> Some False
          | ImportMeta None \<Rightarrow> None
          | ImportMeta (Some e) \<Rightarrow> Some (F e))"
proof (cases meta)
  case ImportMetaUndefined
  then show ?thesis by (simp add: build_flag_def)
next
  case (ImportMeta e)
  then show ?thesis
    by (cases e) (simp_all add: build_flag_def meta_env_def env_flag_def)
qed

lemma bind_getEnv: "bind_result (getEnv key d meta) f = f (projr (getEnv key d meta))"
  by (simp add: getEnv_eq)

lemma bind_getEnvBoolean:
  "bind_result (getEnvBoolean key d meta) f = f (projr (getEnvBoolean key d meta))"
  by (simp add: getEnvBoolean_eq)

lemma bind_getEnvNumber:
  "bind_result (getEnvNumber N key d meta) f = f (projr (getEnvNumber N key d meta))"
  by (simp add: getEnvNumber_eq)

lemma bind_build_flag: "bind_result (build_flag F meta) f = f (projr (build_flag F meta))"
  by (simp add: build_flag_eq)

lemmas bind_readers = bind_getEnv bind_getEnvBoolean bind_getEnvNumber bind_build_flag

lemma getEnv_unset: "unset meta key \<Longrightarrow> projr (getEnv key d meta) = d"
  by (auto simp add: getEnv_eq unset_def or_default_def)

lemma getEnv_set: "env_var meta key = Some v \<Longrightarrow> v \<noteq> [] \<Longrightarrow> projr (getEnv key d meta) = v"
  by (simp add: getEnv_eq or_default_def)

lemma getEnv_Some: "env_var meta key = Some v \<Longrightarrow> projr (getEnv key [] meta) = v"
  by (simp add: getEnv_eq or_default_def)

lemma getEnvBoolean_unset: "unset meta key \<Longrightarrow> projr (getEnvBoolean key d meta) = d"
  by (auto simp add: getEnvBoolean_eq unset_def or_default_def)

lemma getEnvBoolean_true:
  "env_var meta key = Some (js ''true'') \<Longrightarrow> projr (getEnvBoolean key d meta) = True"
  by (simp add: getEnvBoolean_eq or_default_def)

lemma getEnvBoolean_other:
  "env_var meta key = Some v \<Longrightarrow> v \<noteq> js ''true'' \<Longrightarrow> projr (getEnvBoolean key d meta) = d"
  by (simp add: getEnvBoolean_eq or_default_def)

lemma getEnvNumber_unset: "unset meta key \<Longrightarrow> projr (getEnvNumber N key d meta) = d"
  by (auto simp add: getEnvNumber_eq unset_def or_default_def)

lemma getEnvNumber_set:
  "env_var meta key = Some v \<Longrightarrow> v \<noteq> [] \<Longrightarrow> projr (getEnvNumber N key d meta) = N v"
  by (simp add: getEnvNumber_eq or_default_def)

lemma js_split_not_Nil: "js_split sep s \<noteq> []"
  by (induction s) (auto split: list.splits)

text \<open>The test vectors of RFC 4648, and the builtins on small inputs.\<close>

lemma base64_rfc4648_vectors:
  "base64 (map unat (js [])) = []"
  "base64 (map unat (js ''f'')) = js ''Zg==''"
  "base64 (map unat (js ''fo'')) = js ''Zm8=''"
  "base64 (map unat (js ''foo'')) = js ''Zm9v''"
  "base64 (map unat (js ''foob'')) = js ''Zm9vYg==''"
  "base64 (map unat (js ''fooba'')) = js ''Zm9vYmE=''"
  "base64 (map unat (js ''foobar'')) = js ''Zm9vYmFy''"
  "base64 [255, 255, 255] = js ''////''"
  "base64 [251, 239] = js ''++8=''"
  by (simp_all add: js_def b64_char_def b64_alphabet_def)

lemma btoa_examples:
  "btoa (js ''u:p'') = Inr (js ''dTpw'')"
  "btoa [0x75, 0x3A, 0x20AC] = Inl InvalidCharacterError"
  "btoa [0xFF] = Inr (js ''/w=='')"
  by (simp_all add: btoa_def js_def b64_char_def b64_alphabet_def)

lemma js_split_examples:
  "js_split comma (js ''a,b,,c'') = [js ''a'', js ''b'', [], js ''c'']"
  "js_split comma (js '','') = [] # [] # []"
  "js_split comma (js ''abc'') = [js ''abc'']"
  by (simp_all add: js_def comma_def)

lemma js_join_Cons_head: "js_join sep ((c # w) # ws) = c # js_join sep (w # ws)"
  by (cases ws) simp_all

lemma js_join_split: "js_join sep (js_split sep s) = s"
proof (induction s)
  case Nil
  show ?case by simp
next
  case (Cons c cs)
  obtain w ws where split_cs: "js_split sep cs = w # ws"
    using js_split_not_Nil [of sep cs] by (cases "js_split sep cs") auto
  show ?case
  proof (cases "c = sep")
    case True
    then show ?thesis using Cons.IH split_cs by simp
  next
    case False
    then show ?thesis using Cons.IH split_cs by (simp add: js_join_Cons_head)
  qed
qed

lemma js_split_sep_free: "w \<in> set (js_split sep s) \<Longrightarrow> sep \<notin> set w"
proof (induction s arbitrary: w)
  case Nil
  then show ?case by simp
next
  case (Cons c cs)
  obtain v vs where split_cs: "js_split sep cs = v # vs"
    using js_split_not_Nil [of sep cs] by (cases "js_split sep cs") auto
  show ?case
  proof (cases "c = sep")
    case True
    then show ?thesis using Cons by auto
  next
    case False
    then have "w = c # v \<or> w \<in> set vs" using Cons.prems split_cs by simp
    then show ?thesis using Cons.IH [of v] Cons.IH [of w] split_cs False by auto
  qed
qed

lemma env_var_env_of: "env_var (env_of kvs) key = map_of kvs key"
  by (simp add: env_var_def env_of_def)

lemma config_credentials_env:
  "config Number (env_of [(js ''VITE_API_AUTH_TOKEN'', tok), (js ''VITE_WP_USERNAME'', usr),
                          (js ''VITE_WP_APP_PASSWORD'', pwd)]) =
     Inr (credentials_config tok usr pwd)"
  unfolding config_def
  by (simp only: getEnv_eq getEnvBoolean_eq getEnvNumber_eq build_flag_eq bind_result_Inr)
     (simp add: env_of_def credentials_config_def env_var_def or_default_def filter_Boolean_def)

lemma config_corsOrigins:
  "\<exists>cfg. config Number meta = Inr cfg \<and>
     corsOrigins (security cfg) =
       filter_Boolean (js_split comma (projr (getEnv (js ''VITE_CORS_ORIGINS'') [] meta)))"
  unfolding config_def by (simp only: bind_readers) simp

lemma getAuthHeader_token:
  "token (auth cfg) \<noteq> [] \<Longrightarrow> getAuthHeader cfg h = Inr (js ''Basic '' @ token (auth cfg))"
  by (simp add: getAuthHeader_def)

lemma getAuthHeader_btoa:
  "token (auth cfg) = [] \<Longrightarrow> username (auth cfg) \<noteq> [] \<Longrightarrow> appPassword (auth cfg) \<noteq> [] \<Longrightarrow>
   getAuthHeader cfg h =
     bind_result (btoa (username (auth cfg) @ js '':'' @ appPassword (auth cfg)))
       (\<lambda>t. Inr (js ''Basic '' @ t))"
  by (simp add: getAuthHeader_def)

lemma getAuthHeader_storage:
  assumes "no_credentials cfg"
  shows "getAuthHeader cfg h =
     (case host_window h of
        WindowUndefined \<Rightarrow> Inr []
      | WindowNull \<Rightarrow> Inl TypeError
      | Window ReadDenied \<Rightarrow> Inl SecurityError
      | Window (ReadGives None) \<Rightarrow> Inr []
      | Window (ReadGives (Some m)) \<Rightarrow>
          (case host_localStorage h of
             Undeclared \<Rightarrow> Inl ReferenceError
           | Declared ReadDenied \<Rightarrow> Inl SecurityError
           | Declared (ReadGives None) \<Rightarrow> Inl TypeError
           | Declared (ReadGives (Some st)) \<Rightarrow>
               (case st (js ''authToken'') of
                  None \<Rightarrow> Inr []
                | Some v \<Rightarrow> if v \<noteq> [] then Inr (js ''Basic '' @ v) else Inr [])))"
proof -
  have start: "getAuthHeader cfg h =
     (if host_window h = WindowUndefined then Inr []
      else bind_result (window_localStorage (host_window h)) (\<lambda>st.
        if st = None then Inr []
        else bind_result (global_localStorage (host_localStorage h)) (\<lambda>ls.
             bind_result (getItem ls (js ''authToken'')) (\<lambda>storedToken.
          (case storedToken of
             None \<Rightarrow> Inr []
           | Some s \<Rightarrow> if s \<noteq> [] then Inr (js ''Basic '' @ s) else Inr [])))))"
    using assms by (auto simp add: getAuthHeader_def no_credentials_def)
  show ?thesis
    unfolding start
    by (simp add: window_localStorage_def global_localStorage_def read_storage_def getItem_def
          split: window_state.split storage_read.split global_binding.split option.split)
qed

lemma btoa_eq:
  "btoa s = (if latin1 s then Inr (base64 (map unat s)) else Inl InvalidCharacterError)"
  by (simp add: btoa_def latin1_def)

section \<open>Verified properties of the module\<close>




text \<open>
  C2. For every boolean key and every default: when the variable is the string \<open>true\<close>
  the reader gives \<open>true\<close>, and when it is any other non-empty string, \<open>false\<close> included,
  the reader gives the default and not its negation; so do the four feature flags of the
  configuration object, and a flag whose default is \<open>true\<close> stays \<open>true\<close> under \<open>false\<close>.
\<close>

theorem getEnvBoolean_coercion:
  "(env_var meta key = Some (js ''true'') \<longrightarrow> getEnvBoolean key d meta = Inr True) \<and>
   (env_var meta key = Some v \<and> v \<noteq> [] \<and> v \<noteq> js ''true'' \<longrightarrow>
      getEnvBoolean key d meta = Inr d) \<and>
   (env_var meta key = Some (js ''false'') \<longrightarrow> getEnvBoolean key True meta = Inr True) \<and>
   (\<exists>cfg. config Number meta = Inr cfg \<and>
      (env_var meta (js ''VITE_ENABLE_REVIEWS'') = Some (js ''true'') \<longrightarrow> reviews (features cfg) = True) \<and>
      (env_var meta (js ''VITE_ENABLE_REVIEWS'') = Some v \<and> v \<noteq> [] \<and> v \<noteq> js ''true'' \<longrightarrow> reviews (features cfg) = True) \<and>
      (env_var meta (js ''VITE_ENABLE_WISHLIST'') = Some (js ''true'') \<longrightarrow> wishlist (features cfg) = True) \<and>
      (env_var meta (js ''VITE_ENABLE_WISHLIST'') = Some v \<and> v \<noteq> [] \<and> v \<noteq> js ''true'' \<longrightarrow> wishlist (features cfg) = True) \<and>
      (env_var meta (js ''VITE_ENABLE_CHAT'') = Some (js ''true'') \<longrightarrow> chat (features cfg) = True) \<and>
      (env_var meta (js ''VITE_ENABLE_CHAT'') = Some v \<and> v \<noteq> [] \<and> v \<noteq> js ''true'' \<longrightarrow> chat (features cfg) = False) \<and>
      (env_var meta (js ''VITE_ENABLE_NOTIFICATIONS'') = Some (js ''true'') \<longrightarrow> notifications (features cfg) = True) \<and>
      (env_var meta (js ''VITE_ENABLE_NOTIFICATIONS'') = Some v \<and> v \<noteq> [] \<and> v \<noteq> js ''true'' \<longrightarrow> notifications (features cfg) = True))"
proof -
  have readers: "(env_var meta key = Some (js ''true'') \<longrightarrow> getEnvBoolean key d meta = Inr True) \<and>
   (env_var meta key = Some v \<and> v \<noteq> [] \<and> v \<noteq> js ''true'' \<longrightarrow>
      getEnvBoolean key d meta = Inr d) \<and>
   (env_var meta key = Some (js ''false'') \<longrightarrow> getEnvBoolean key True meta = Inr True)"
    by (simp add: getEnvBoolean_eq or_default_def)
  have fields: "\<exists>cfg. config Number meta = Inr cfg \<and>
      (env_var meta (js ''VITE_ENABLE_REVIEWS'') = Some (js ''true'') \<longrightarrow> reviews (features cfg) = True) \<and>
      (env_var meta (js ''VITE_ENABLE_REVIEWS'') = Some v \<and> v \<noteq> [] \<and> v \<noteq> js ''true'' \<longrightarrow> reviews (features cfg) = True) \<and>
      (env_var meta (js ''VITE_ENABLE_WISHLIST'') = Some (js ''true'') \<longrightarrow> wishlist (features cfg) = True) \<and>
      (env_var meta (js ''VITE_ENABLE_WISHLIST'') = Some v \<and> v \<noteq> [] \<and> v \<noteq> js ''true'' \<longrightarrow> wishlist (features cfg) = True) \<and>
      (env_var meta (js ''VITE_ENABLE_CHAT'') = Some (js ''true'') \<longrightarrow> chat (features cfg) = True) \<and>
      (env_var meta (js ''VITE_ENABLE_CHAT'') = Some v \<and> v \<noteq> [] \<and> v \<noteq> js ''true'' \<longrightarrow> chat (features cfg) = False) \<and>
      (env_var meta (js ''VITE_ENABLE_NOTIFICATIONS'') = Some (js ''true'') \<longrightarrow> notifications (features cfg) = True) \<and>
      (env_var meta (js ''VITE_ENABLE_NOTIFICATIONS'') = Some v \<and> v \<noteq> [] \<and> v \<noteq> js ''true'' \<longrightarrow> notifications (features cfg) = True)"
    unfolding config_def
    by (simp only: bind_readers) (simp add: getEnvBoolean_true getEnvBoolean_other)
  from readers fields show ?thesis by (simp only: simp_thms)
qed

theorem getEnvBoolean_coercion_witness:
  "getEnvBoolean (js ''VITE_ENABLE_REVIEWS'') True
     (env_of [(js ''VITE_ENABLE_REVIEWS'', js ''false'')]) = Inr True \<and>
   (\<exists>cfg. config (\<lambda>s. NaN) (env_of [(js ''VITE_ENABLE_REVIEWS'', js ''false'')]) = Inr cfg \<and>
      reviews (features cfg) = True) \<and>
   getEnvBoolean (js ''VITE_ENABLE_CHAT'') False
     (env_of [(js ''VITE_ENABLE_CHAT'', js ''true'')]) = Inr True"
  using getEnvBoolean_coercion
          [of "env_of [(js ''VITE_ENABLE_REVIEWS'', js ''false'')]" "js ''VITE_ENABLE_REVIEWS''"
              True "js ''false''" "\<lambda>s. NaN"]
        getEnvBoolean_coercion
          [of "env_of [(js ''VITE_ENABLE_CHAT'', js ''true'')]" "js ''VITE_ENABLE_CHAT''"
              False "js ''true''" "\<lambda>s. NaN"]
  by (simp add: env_var_env_of)

text \<open>
  C3. For every numeric key: when the variable is a non-empty string the reader gives
  what the host's \<open>Number\<close> gives on that string, the not-a-number sentinel included,
  with nothing in between; when the variable is empty or absent the reader gives the
  default; and so do the six numeric fields of the configuration object.
\<close>

theorem getEnvNumber_coercion:
  "(env_var meta key = Some v \<and> v \<noteq> [] \<longrightarrow> getEnvNumber Number key d meta = Inr (Number v)) \<and>
   (env_var meta key = Some v \<and> v \<noteq> [] \<and> Number v = NaN \<longrightarrow>
      getEnvNumber Number key d meta = Inr NaN) \<and>
   (unset meta key \<longrightarrow> getEnvNumber Number key d meta = Inr d) \<and>
   (\<exists>cfg. config Number meta = Inr cfg \<and>
      (env_var meta (js ''VITE_API_TIMEOUT'') = Some v \<and> v \<noteq> [] \<longrightarrow> timeout (api cfg) = Number v) \<and>
      (unset meta (js ''VITE_API_TIMEOUT'') \<longrightarrow> timeout (api cfg) = Finite 10000) \<and>
      (env_var meta (js ''VITE_DEFAULT_PER_PAGE'') = Some v \<and> v \<noteq> [] \<longrightarrow> defaultPerPage (pagination cfg) = Number v) \<and>
      (unset meta (js ''VITE_DEFAULT_PER_PAGE'') \<longrightarrow> defaultPerPage (pagination cfg) = Finite 20) \<and>
      (env_var meta (js ''VITE_MAX_PER_PAGE'') = Some v \<and> v \<noteq> [] \<longrightarrow> maxPerPage (pagination cfg) = Number v) \<and>
      (unset meta (js ''VITE_MAX_PER_PAGE'') \<longrightarrow> maxPerPage (pagination cfg) = Finite 100) \<and>
      (env_var meta (js ''VITE_SMTP_PORT'') = Some v \<and> v \<noteq> [] \<longrightarrow> port (smtp (email cfg)) = Number v) \<and>
      (unset meta (js ''VITE_SMTP_PORT'') \<longrightarrow> port (smtp (email cfg)) = Finite 587) \<and>
      (env_var meta (js ''VITE_RATE_LIMIT_REQUESTS'') = Some v \<and> v \<noteq> [] \<longrightarrow> requests (rateLimit (security cfg)) = Number v) \<and>
      (unset meta (js ''VITE_RATE_LIMIT_REQUESTS'') \<longrightarrow> requests (rateLimit (security cfg)) = Finite 100) \<and>
      (env_var meta (js ''VITE_RATE_LIMIT_WINDOW'') = Some v \<and> v \<noteq> [] \<longrightarrow> window (rateLimit (security cfg)) = Number v) \<and>
      (unset meta (js ''VITE_RATE_LIMIT_WINDOW'') \<longrightarrow> window (rateLimit (security cfg)) = Finite 900000))"
proof -
  have readers: "(env_var meta key = Some v \<and> v \<noteq> [] \<longrightarrow> getEnvNumber Number key d meta = Inr (Number v)) \<and>
   (env_var meta key = Some v \<and> v \<noteq> [] \<and> Number v = NaN \<longrightarrow>
      getEnvNumber Number key d meta = Inr NaN) \<and>
   (unset meta key \<longrightarrow> getEnvNumber Number key d meta = Inr d)"
    by (auto simp add: getEnvNumber_eq or_default_def unset_def)
  have fields: "\<exists>cfg. config Number meta = Inr cfg \<and>
      (env_var meta (js ''VITE_API_TIMEOUT'') = Some v \<and> v \<noteq> [] \<longrightarrow> timeout (api cfg) = Number v) \<and>
      (unset meta (js ''VITE_API_TIMEOUT'') \<longrightarrow> timeout (api cfg) = Finite 10000) \<and>
      (env_var meta (js ''VITE_DEFAULT_PER_PAGE'') = Some v \<and> v \<noteq> [] \<longrightarrow> defaultPerPage (pagination cfg) = Number v) \<and>
      (unset meta (js ''VITE_DEFAULT_PER_PAGE'') \<longrightarrow> defaultPerPage (pagination cfg) = Finite 20) \<and>
      (env_var meta (js ''VITE_MAX_PER_PAGE'') = Some v \<and> v \<noteq> [] \<longrightarrow> maxPerPage (pagination cfg) = Number v) \<and>
      (unset meta (js ''VITE_MAX_PER_PAGE'') \<longrightarrow> maxPerPage (pagination cfg) = Finite 100) \<and>
      (env_var meta (js ''VITE_SMTP_PORT'') = Some v \<and> v \<noteq> [] \<longrightarrow> port (smtp (email cfg)) = Number v) \<and>
      (unset meta (js ''VITE_SMTP_PORT'') \<longrightarrow> port (smtp (email cfg)) = Finite 587) \<and>
      (env_var meta (js ''VITE_RATE_LIMIT_REQUESTS'') = Some v \<and> v \<noteq> [] \<longrightarrow> requests (rateLimit (security cfg)) = Number v) \<and>
      (unset meta (js ''VITE_RATE_LIMIT_REQUESTS'') \<longrightarrow> requests (rateLimit (security cfg)) = Finite 100) \<and>
      (env_var meta (js ''VITE_RATE_LIMIT_WINDOW'') = Some v \<and> v \<noteq> [] \<longrightarrow> window (rateLimit (security cfg)) = Number v) \<and>
      (unset meta (js ''VITE_RATE_LIMIT_WINDOW'') \<longrightarrow> window (rateLimit (security cfg)) = Finite 900000)"
    unfolding config_def
    by (simp only: bind_readers) (simp add: getEnvNumber_unset getEnvNumber_set)
  from readers fields show ?thesis by (simp only: simp_thms)
qed

theorem getEnvNumber_coercion_witness:
  "getEnvNumber (\<lambda>s. NaN) (js ''VITE_API_TIMEOUT'') (Finite 10000)
     (env_of [(js ''VITE_API_TIMEOUT'', js ''abc'')]) = Inr NaN \<and>
   getEnvNumber (\<lambda>s. NaN) (js ''VITE_SMTP_PORT'') (Finite 587)
     (env_of [(js ''VITE_SMTP_PORT'', [])]) = Inr (Finite 587) \<and>
   (\<exists>cfg. config (\<lambda>s. NaN) (env_of [(js ''VITE_API_TIMEOUT'', js ''abc'')]) = Inr cfg \<and>
      timeout (api cfg) = NaN \<and> port (smtp (email cfg)) = Finite 587)"
  using getEnvNumber_coercion
          [of "env_of [(js ''VITE_API_TIMEOUT'', js ''abc'')]" "js ''VITE_API_TIMEOUT''"
              "js ''abc''" "\<lambda>s. NaN" "Finite 10000"]
        getEnvNumber_coercion
          [of "env_of [(js ''VITE_SMTP_PORT'', [])]" "js ''VITE_SMTP_PORT''"
              "js ''abc''" "\<lambda>s. NaN" "Finite 587"]
  by (auto simp add: env_var_env_of unset_def)

text \<open>
  C10. \<open>getEnvNumber\<close> tests the raw string, not the parsed number: given that the host's
  \<open>Number\<close> maps the string \<open>0\<close> to the number 0, a variable set to \<open>0\<close> gives 0 whatever
  the default is, and each numeric field of the configuration object is then 0 and not
  its non-zero default.
\<close>

theorem getEnvNumber_zero_string:
  assumes "Number (js ''0'') = Finite 0"
  shows "(env_var meta key = Some (js ''0'') \<longrightarrow> getEnvNumber Number key d meta = Inr (Finite 0)) \<and>
   (\<exists>cfg. config Number meta = Inr cfg \<and>
      (env_var meta (js ''VITE_API_TIMEOUT'') = Some (js ''0'') \<longrightarrow> timeout (api cfg) = Finite 0 \<and> timeout (api cfg) \<noteq> Finite 10000) \<and>
      (env_var meta (js ''VITE_DEFAULT_PER_PAGE'') = Some (js ''0'') \<longrightarrow> defaultPerPage (pagination cfg) = Finite 0 \<and> defaultPerPage (pagination cfg) \<noteq> Finite 20) \<and>
      (env_var meta (js ''VITE_MAX_PER_PAGE'') = Some (js ''0'') \<longrightarrow> maxPerPage (pagination cfg) = Finite 0 \<and> maxPerPage (pagination cfg) \<noteq> Finite 100) \<and>
      (env_var meta (js ''VITE_SMTP_PORT'') = Some (js ''0'') \<longrightarrow> port (smtp (email cfg)) = Finite 0 \<and> port (smtp (email cfg)) \<noteq> Finite 587) \<and>
      (env_var meta (js ''VITE_RATE_LIMIT_REQUESTS'') = Some (js ''0'') \<longrightarrow> requests (rateLimit (security cfg)) = Finite 0 \<and> requests (rateLimit (security cfg)) \<noteq> Finite 100) \<and>
      (env_var meta (js ''VITE_RATE_LIMIT_WINDOW'') = Some (js ''0'') \<longrightarrow> window (rateLimit (security cfg)) = Finite 0 \<and> window (rateLimit (security cfg)) \<noteq> Finite 900000))"
proof -
  have readers: "env_var meta key = Some (js ''0'') \<longrightarrow> getEnvNumber Number key d meta = Inr (Finite 0)"
    using assms by (simp add: getEnvNumber_eq or_default_def)
  have zero: "\<And>k dflt. env_var meta k = Some (js ''0'') \<Longrightarrow>
      projr (getEnvNumber Number k dflt meta) = Finite 0"
    using assms by (simp add: getEnvNumber_eq or_default_def)
  have fields: "\<exists>cfg. config Number meta = Inr cfg \<and>
      (env_var meta (js ''VITE_API_TIMEOUT'') = Some (js ''0'') \<longrightarrow> timeout (api cfg) = Finite 0 \<and> timeout (api cfg) \<noteq> Finite 10000) \<and>
      (env_var meta (js ''VITE_DEFAULT_PER_PAGE'') = Some (js ''0'') \<longrightarrow> defaultPerPage (pagination cfg) = Finite 0 \<and> defaultPerPage (pagination cfg) \<noteq> Finite 20) \<and>
      (env_var meta (js ''VITE_MAX_PER_PAGE'') = Some (js ''0'') \<longrightarrow> maxPerPage (pagination cfg) = Finite 0 \<and> maxPerPage (pagination cfg) \<noteq> Finite 100) \<and>
      (env_var meta (js ''VITE_SMTP_PORT'') = Some (js ''0'') \<longrightarrow> port (smtp (email cfg)) = Finite 0 \<and> port (smtp (email cfg)) \<noteq> Finite 587) \<and>
      (env_var meta (js ''VITE_RATE_LIMIT_REQUESTS'') = Some (js ''0'') \<longrightarrow> requests (rateLimit (security cfg)) = Finite 0 \<and> requests (rateLimit (security cfg)) \<noteq> Finite 100) \<and>
      (env_var meta (js ''VITE_RATE_LIMIT_WINDOW'') = Some (js ''0'') \<longrightarrow> window (rateLimit (security cfg)) = Finite 0 \<and> window (rateLimit (security cfg)) \<noteq> Finite 900000)"
    unfolding config_def
    by (simp only: bind_readers) (simp add: zero)
  from readers fields show ?thesis by (simp only: simp_thms)
qed

theorem getEnvNumber_zero_string_witness:
  "(\<lambda>s. if s = js ''0'' then Finite 0 else NaN) (js ''0'') = Finite 0 \<and>
   getEnvNumber (\<lambda>s. if s = js ''0'' then Finite 0 else NaN) (js ''VITE_API_TIMEOUT'') (Finite 10000)
     (env_of [(js ''VITE_API_TIMEOUT'', js ''0'')]) = Inr (Finite 0) \<and>
   (\<exists>cfg. config (\<lambda>s. if s = js ''0'' then Finite 0 else NaN) (env_of [(js ''VITE_API_TIMEOUT'', js ''0'')]) = Inr cfg \<and>
      timeout (api cfg) = Finite 0)"
  using getEnvNumber_zero_string
          [of "\<lambda>s. if s = js ''0'' then Finite 0 else NaN"
              "env_of [(js ''VITE_API_TIMEOUT'', js ''0'')]" "js ''VITE_API_TIMEOUT''"
              "Finite 10000"]
  by (auto simp add: env_var_env_of)

text \<open>
  C4. For every key the module reads: when its variable is absent or empty, or there is
  no environment to read, the field of the configuration object is the default written
  in the source; among them \<open>api.timeout = 10000\<close>, \<open>pagination.defaultPerPage = 20\<close>,
  \<open>email.smtp.port = 587\<close>, \<open>auth.jwtExpiration = "7d"\<close>, \<open>features.chat = false\<close>,
  \<open>features.reviews = true\<close> and the WordPress URL of \<open>api.wordpress\<close>.
\<close>

theorem config_defaults:
  "\<exists>cfg. config Number meta = Inr cfg \<and>
      (unset meta (js ''VITE_GEODIR_API_URL'') \<longrightarrow> geodir (api cfg) = js ''https://shoplocal.kinsta.cloud/wp-json/geodir/v2'') \<and>
      (unset meta (js ''VITE_WP_API_URL'') \<longrightarrow> wordpress (api cfg) = js ''https://shoplocal.kinsta.cloud/wp-json/wp/v2'') \<and>
      (unset meta (js ''VITE_DOKAN_API_URL'') \<longrightarrow> dokan (api cfg) = js ''https://shoplocal.kinsta.cloud/wp-json/dokan/v1'') \<and>
      (unset meta (js ''VITE_WP_USERNAME'') \<longrightarrow> username (auth cfg) = []) \<and>
      (unset meta (js ''VITE_WP_APP_PASSWORD'') \<longrightarrow> appPassword (auth cfg) = []) \<and>
      (unset meta (js ''VITE_API_AUTH_TOKEN'') \<longrightarrow> token (auth cfg) = []) \<and>
      (unset meta (js ''VITE_JWT_SECRET'') \<longrightarrow> jwtSecret (auth cfg) = []) \<and>
      (unset meta (js ''VITE_JWT_EXPIRATION'') \<longrightarrow> jwtExpiration (auth cfg) = js ''7d'') \<and>
      (unset meta (js ''VITE_UNSPLASH_ACCESS_KEY'') \<longrightarrow> unsplash (services cfg) = []) \<and>
      (unset meta (js ''VITE_GOOGLE_MAPS_API_KEY'') \<longrightarrow> googleMaps (services cfg) = []) \<and>
      (unset meta (js ''VITE_STRIPE_PUBLISHABLE_KEY'') \<longrightarrow> publishableKey (stripe (services cfg)) = []) \<and>
      (unset meta (js ''VITE_STRIPE_SECRET_KEY'') \<longrightarrow> secretKey (stripe (services cfg)) = []) \<and>
      (unset meta (js ''VITE_PAYPAL_CLIENT_ID'') \<longrightarrow> clientId (paypal (services cfg)) = []) \<and>
      (unset meta (js ''VITE_PAYPAL_SECRET'') \<longrightarrow> secret (paypal (services cfg)) = []) \<and>
      (unset meta (js ''VITE_APP_ENV'') \<longrightarrow> env (app cfg) = js ''development'') \<and>
      (unset meta (js ''VITE_APP_URL'') \<longrightarrow> url (app cfg) = js ''http://localhost:5173'') \<and>
      (unset meta (js ''VITE_SMTP_HOST'') \<longrightarrow> host (smtp (email cfg)) = []) \<and>
      (unset meta (js ''VITE_SMTP_USER'') \<longrightarrow> user (smtp (email cfg)) = []) \<and>
      (unset meta (js ''VITE_SMTP_PASSWORD'') \<longrightarrow> password (smtp (email cfg)) = []) \<and>
      (unset meta (js ''VITE_SMTP_FROM'') \<longrightarrow> from_addr (email cfg) = js ''noreply@shoplocal.com'') \<and>
      (unset meta (js ''VITE_SMTP_FROM_NAME'') \<longrightarrow> fromName (email cfg) = js ''ShopLocal Marketplace'') \<and>
      (unset meta (js ''VITE_CDN_URL'') \<longrightarrow> cdnUrl (storage cfg) = []) \<and>
      (unset meta (js ''VITE_AWS_ACCESS_KEY_ID'') \<longrightarrow> accessKeyId (aws (storage cfg)) = []) \<and>
      (unset meta (js ''VITE_AWS_SECRET_ACCESS_KEY'') \<longrightarrow> secretAccessKey (aws (storage cfg)) = []) \<and>
      (unset meta (js ''VITE_AWS_REGION'') \<longrightarrow> region (aws (storage cfg)) = js ''us-east-1'') \<and>
      (unset meta (js ''VITE_AWS_S3_BUCKET'') \<longrightarrow> bucket (aws (storage cfg)) = []) \<and>
      (unset meta (js ''VITE_GA_TRACKING_ID'') \<longrightarrow> googleAnalytics (analytics cfg) = []) \<and>
      (unset meta (js ''VITE_FB_PIXEL_ID'') \<longrightarrow> facebookPixel (analytics cfg) = []) \<and>
      (unset meta (js ''VITE_SENTRY_DSN'') \<longrightarrow> sentry (analytics cfg) = []) \<and>
      (unset meta (js ''VITE_SESSION_SECRET'') \<longrightarrow> sessionSecret (security cfg) = []) \<and>
      (unset meta (js ''VITE_API_TIMEOUT'') \<longrightarrow> timeout (api cfg) = Finite 10000) \<and>
      (unset meta (js ''VITE_DEFAULT_PER_PAGE'') \<longrightarrow> defaultPerPage (pagination cfg) = Finite 20) \<and>
      (unset meta (js ''VITE_MAX_PER_PAGE'') \<longrightarrow> maxPerPage (pagination cfg) = Finite 100) \<and>
      (unset meta (js ''VITE_SMTP_PORT'') \<longrightarrow> port (smtp (email cfg)) = Finite 587) \<and>
      (unset meta (js ''VITE_RATE_LIMIT_REQUESTS'') \<longrightarrow> requests (rateLimit (security cfg)) = Finite 100) \<and>
      (unset meta (js ''VITE_RATE_LIMIT_WINDOW'') \<longrightarrow> window (rateLimit (security cfg)) = Finite 900000) \<and>
      (unset meta (js ''VITE_ENABLE_REVIEWS'') \<longrightarrow> reviews (features cfg) = True) \<and>
      (unset meta (js ''VITE_ENABLE_WISHLIST'') \<longrightarrow> wishlist (features cfg) = True) \<and>
      (unset meta (js ''VITE_ENABLE_CHAT'') \<longrightarrow> chat (features cfg) = False) \<and>
      (unset meta (js ''VITE_ENABLE_NOTIFICATIONS'') \<longrightarrow> notifications (features cfg) = True) \<and>
      (unset meta (js ''VITE_CORS_ORIGINS'') \<longrightarrow> corsOrigins (security cfg) = []) \<and>
      (unset meta (js ''VITE_WP_API_URL'') \<longrightarrow> getApiUrl cfg Wordpress = js ''https://shoplocal.kinsta.cloud/wp-json/wp/v2'') \<and>
      (unset meta (js ''VITE_ENABLE_CHAT'') \<longrightarrow> \<not> isFeatureEnabled cfg Chat) \<and>
      (unset meta (js ''VITE_ENABLE_REVIEWS'') \<longrightarrow> isFeatureEnabled cfg Reviews)"
  unfolding config_def
  by (simp only: bind_readers)
     (simp add: getEnv_unset getEnvBoolean_unset getEnvNumber_unset filter_Boolean_def)

theorem config_defaults_witness:
  "\<exists>cfg. config (\<lambda>s. NaN) ImportMetaUndefined = Inr cfg \<and>
     timeout (api cfg) = Finite 10000 \<and> defaultPerPage (pagination cfg) = Finite 20 \<and>
     port (smtp (email cfg)) = Finite 587 \<and> jwtExpiration (auth cfg) = js ''7d'' \<and>
     chat (features cfg) = False \<and> reviews (features cfg) = True \<and>
     wordpress (api cfg) = js ''https://shoplocal.kinsta.cloud/wp-json/wp/v2''"
  using config_defaults [of "\<lambda>s. NaN" ImportMetaUndefined]
  by (auto simp add: unset_def env_var_def)

text \<open>
  C5. \<open>security.corsOrigins\<close> is the value of \<open>VITE_CORS_ORIGINS\<close> split on commas with the
  empty segments dropped and the order kept: there are comma-free segments that joined
  by commas give the value back, and \<open>corsOrigins\<close> is those of them that are not empty.
  For \<open>a,b,,c\<close> it is \<open>["a", "b", "c"]\<close>.
\<close>

theorem corsOrigins_split:
  "\<exists>cfg. config Number meta = Inr cfg \<and>
     (env_var meta (js ''VITE_CORS_ORIGINS'') = Some v \<longrightarrow>
        (\<exists>segs. js_join comma segs = v \<and> (\<forall>w \<in> set segs. comma \<notin> set w) \<and>
           corsOrigins (security cfg) = filter (\<lambda>w. w \<noteq> []) segs)) \<and>
     (env_var meta (js ''VITE_CORS_ORIGINS'') = Some (js ''a,b,,c'') \<longrightarrow>
        corsOrigins (security cfg) = [js ''a'', js ''b'', js ''c''])"
proof -
  obtain cfg where cfg: "config Number meta = Inr cfg"
    and cors: "corsOrigins (security cfg) =
       filter_Boolean (js_split comma (projr (getEnv (js ''VITE_CORS_ORIGINS'') [] meta)))"
    using config_corsOrigins by blast
  have general: "\<exists>segs. js_join comma segs = v \<and> (\<forall>w \<in> set segs. comma \<notin> set w) \<and>
           corsOrigins (security cfg) = filter (\<lambda>w. w \<noteq> []) segs"
    if "env_var meta (js ''VITE_CORS_ORIGINS'') = Some v"
  proof (intro exI [of _ "js_split comma v"] conjI ballI)
    show "js_join comma (js_split comma v) = v" by (rule js_join_split)
    show "comma \<notin> set w" if "w \<in> set (js_split comma v)" for w
      using that by (rule js_split_sep_free)
    show "corsOrigins (security cfg) = filter (\<lambda>w. w \<noteq> []) (js_split comma v)"
      using cors that by (simp add: getEnv_Some filter_Boolean_def)
  qed
  have example: "corsOrigins (security cfg) = [js ''a'', js ''b'', js ''c'']"
    if "env_var meta (js ''VITE_CORS_ORIGINS'') = Some (js ''a,b,,c'')"
    using cors that by (simp add: getEnv_Some filter_Boolean_def js_def comma_def)
  from cfg general example show ?thesis by blast
qed

theorem corsOrigins_split_witness:
  "\<exists>cfg. config (\<lambda>s. NaN) (env_of [(js ''VITE_CORS_ORIGINS'', js ''a,b,,c'')]) = Inr cfg \<and>
     corsOrigins (security cfg) = [js ''a'', js ''b'', js ''c'']"
  using corsOrigins_split [of "\<lambda>s. NaN" "env_of [(js ''VITE_CORS_ORIGINS'', js ''a,b,,c'')]" "js ''a,b,,c''"]
  by (auto simp add: env_var_env_of)

text \<open>
  C9. When \<open>VITE_CORS_ORIGINS\<close> is absent or empty, \<open>security.corsOrigins\<close> is the empty
  list and not the list of one empty string: splitting the empty string on commas gives
  one empty segment, which the filter drops.
\<close>

theorem corsOrigins_unset:
  "(\<exists>cfg. config Number meta = Inr cfg \<and>
      (unset meta (js ''VITE_CORS_ORIGINS'') \<longrightarrow>
         corsOrigins (security cfg) = [] \<and> corsOrigins (security cfg) \<noteq> [] # [])) \<and>
   js_split comma [] = [] # [] \<and> filter_Boolean ([] # []) = []"
proof -
  obtain cfg where cfg: "config Number meta = Inr cfg"
    and cors: "corsOrigins (security cfg) =
       filter_Boolean (js_split comma (projr (getEnv (js ''VITE_CORS_ORIGINS'') [] meta)))"
    using config_corsOrigins by blast
  have "corsOrigins (security cfg) = []" if "unset meta (js ''VITE_CORS_ORIGINS'')"
    using cors that by (simp add: getEnv_unset filter_Boolean_def)
  with cfg show ?thesis by (auto simp add: filter_Boolean_def)
qed

theorem corsOrigins_unset_witness:
  "(\<exists>cfg. config (\<lambda>s. NaN) (ImportMeta None) = Inr cfg \<and> corsOrigins (security cfg) = []) \<and>
   (\<exists>cfg. config (\<lambda>s. NaN) (env_of [(js ''VITE_CORS_ORIGINS'', [])]) = Inr cfg \<and>
      corsOrigins (security cfg) = [])"
  using corsOrigins_unset [of "\<lambda>s. NaN" "ImportMeta None"]
        corsOrigins_unset [of "\<lambda>s. NaN" "env_of [(js ''VITE_CORS_ORIGINS'', [])]"]
  by (auto simp add: unset_def env_var_def env_of_def)




text \<open>
  C6, as amended. With an empty token, a non-empty user name \<open>u\<close> and a non-empty
  application password \<open>p\<close>, in every host: when every code unit of \<open>u:p\<close> is at most
  \<open>0xFF\<close>, \<open>getAuthHeader\<close> returns \<open>Basic\<close>, a space and the base64 encoding of \<open>u:p\<close>,
  which for the user name \<open>u\<close> and the password \<open>p\<close> is \<open>dTpw\<close>; when a code unit is above
  \<open>0xFF\<close> it raises \<open>InvalidCharacterError\<close>.
\<close>

theorem getAuthHeader_username_password:
  "(token (auth cfg) = [] \<and> username (auth cfg) = u \<and> appPassword (auth cfg) = p \<and>
    u \<noteq> [] \<and> p \<noteq> [] \<and> latin1 (u @ js '':'' @ p) \<longrightarrow>
      getAuthHeader cfg h = Inr (js ''Basic '' @ base64 (map unat (u @ js '':'' @ p)))) \<and>
   (token (auth cfg) = [] \<and> username (auth cfg) = u \<and> appPassword (auth cfg) = p \<and>
    u \<noteq> [] \<and> p \<noteq> [] \<and> \<not> latin1 (u @ js '':'' @ p) \<longrightarrow>
      getAuthHeader cfg h = Inl InvalidCharacterError) \<and>
   (token (auth cfg) = [] \<and> username (auth cfg) = js ''u'' \<and> appPassword (auth cfg) = js ''p'' \<longrightarrow>
      getAuthHeader cfg h = Inr (js ''Basic dTpw''))"
proof -
  have general: "(token (auth cfg) = [] \<and> username (auth cfg) = u \<and> appPassword (auth cfg) = p \<and>
    u \<noteq> [] \<and> p \<noteq> [] \<and> latin1 (u @ js '':'' @ p) \<longrightarrow>
      getAuthHeader cfg h = Inr (js ''Basic '' @ base64 (map unat (u @ js '':'' @ p)))) \<and>
   (token (auth cfg) = [] \<and> username (auth cfg) = u \<and> appPassword (auth cfg) = p \<and>
    u \<noteq> [] \<and> p \<noteq> [] \<and> \<not> latin1 (u @ js '':'' @ p) \<longrightarrow>
      getAuthHeader cfg h = Inl InvalidCharacterError)"
    by (auto simp add: getAuthHeader_btoa btoa_eq)
  have example: "token (auth cfg) = [] \<and> username (auth cfg) = js ''u'' \<and>
      appPassword (auth cfg) = js ''p'' \<longrightarrow>
      getAuthHeader cfg h = Inr (js ''Basic dTpw'')"
    by (simp add: getAuthHeader_btoa btoa_def js_def b64_char_def b64_alphabet_def)
  from general example show ?thesis by blast
qed

theorem getAuthHeader_username_password_witness:
  "getAuthHeader (credentials_config [] (js ''u'') (js ''p'')) (browser []) =
     Inr (js ''Basic dTpw'') \<and>
   getAuthHeader (credentials_config [] (js ''user'') (js ''pw'')) browser_storage_denied =
     Inr (js ''Basic dXNlcjpwdw=='') \<and>
   getAuthHeader (credentials_config [] [0xE9] [0xFF]) window_shim =
     Inr (js ''Basic 6Tr/'') \<and>
   getAuthHeader (credentials_config [] (js ''user'') [0x100]) server_host =
     Inl InvalidCharacterError"
proof -
  have set_up: "\<And>usr pwd. token (auth (credentials_config [] usr pwd)) = [] \<and>
      username (auth (credentials_config [] usr pwd)) = usr \<and>
      appPassword (auth (credentials_config [] usr pwd)) = pwd"
    by (simp add: credentials_config_def)
  show ?thesis
    using getAuthHeader_username_password
            [of "credentials_config [] (js ''u'') (js ''p'')" "js ''u''" "js ''p''" "browser []"]
          getAuthHeader_username_password
            [of "credentials_config [] (js ''user'') (js ''pw'')" "js ''user''" "js ''pw''"
                browser_storage_denied]
          getAuthHeader_username_password
            [of "credentials_config [] [0xE9] [0xFF]" "[0xE9]" "[0xFF]" window_shim]
          getAuthHeader_username_password
            [of "credentials_config [] (js ''user'') [0x100]" "js ''user''" "[0x100]" server_host]
    by (simp add: set_up latin1_def js_def b64_char_def b64_alphabet_def)
qed

text \<open>
  C6 as stated, for any non-empty user name and password, fails where one of them has a
  code unit above \<open>0xFF\<close>, here a Cyrillic letter in the user name: the call raises.
\<close>

theorem getAuthHeader_username_password_raises:
  "token (auth (credentials_config [] [0x044E] (js ''p''))) = [] \<and>
   username (auth (credentials_config [] [0x044E] (js ''p''))) \<noteq> [] \<and>
   appPassword (auth (credentials_config [] [0x044E] (js ''p''))) \<noteq> [] \<and>
   getAuthHeader (credentials_config [] [0x044E] (js ''p'')) (browser []) =
     Inl InvalidCharacterError"
  by (simp add: getAuthHeader_def credentials_config_def btoa_def js_def)

text \<open>
  C8. For every configuration and every state of the host and its local storage, a value
  that \<open>getAuthHeader\<close> returns is the empty string or begins with \<open>Basic\<close> and a space.
  Where it returns nothing it raises: \<open>InvalidCharacterError\<close> on credentials with a code
  unit above \<open>0xFF\<close>, and otherwise an error of reading the local storage.
\<close>

theorem getAuthHeader_shape:
  "(case getAuthHeader cfg h of
      Inr r \<Rightarrow> r = [] \<or> prefix (js ''Basic '') r
    | Inl e \<Rightarrow> token (auth cfg) = [] \<and>
        (if e = InvalidCharacterError
         then username (auth cfg) \<noteq> [] \<and> appPassword (auth cfg) \<noteq> [] \<and> \<not> latin1 (username (auth cfg) @ js '':'' @ appPassword (auth cfg))
         else no_credentials cfg \<and> host_window h \<noteq> WindowUndefined \<and>
              host_window h \<noteq> Window (ReadGives None)))"
proof (cases "no_credentials cfg")
  case True
  then show ?thesis
    by (auto simp add: getAuthHeader_storage no_credentials_def
          split: window_state.splits storage_read.splits global_binding.splits option.splits)
next
  case False
  then show ?thesis
    by (cases "token (auth cfg) = []")
       (auto simp add: getAuthHeader_token getAuthHeader_btoa btoa_eq no_credentials_def)
qed

theorem getAuthHeader_shape_witness:
  "getAuthHeader (credentials_config [] (js ''me'') (js ''secret'')) server_host =
     Inr (js ''Basic bWU6c2VjcmV0'') \<and>
   prefix (js ''Basic '') (js ''Basic bWU6c2VjcmV0'') \<and>
   getAuthHeader (credentials_config [] [] []) server_host = Inr [] \<and>
   getAuthHeader (credentials_config [] [0x4E2D] (js ''p'')) server_host =
     Inl InvalidCharacterError \<and>
   \<not> latin1 ([0x4E2D] @ js '':'' @ js ''p'') \<and>
   getAuthHeader (credentials_config [] [] []) browser_storage_denied = Inl SecurityError"
proof -
  have run: "getAuthHeader (credentials_config [] (js ''me'') (js ''secret'')) server_host =
     Inr (js ''Basic bWU6c2VjcmV0'')"
    by (simp add: getAuthHeader_def credentials_config_def btoa_def js_def b64_char_def
          b64_alphabet_def)
  have none: "getAuthHeader (credentials_config [] [] []) server_host = Inr []"
    by (simp add: getAuthHeader_def credentials_config_def server_host_def)
  have raise: "getAuthHeader (credentials_config [] [0x4E2D] (js ''p'')) server_host =
     Inl InvalidCharacterError"
    by (simp add: getAuthHeader_def credentials_config_def btoa_def js_def)
  have denied: "getAuthHeader (credentials_config [] [] []) browser_storage_denied =
     Inl SecurityError"
    by (simp add: getAuthHeader_def credentials_config_def browser_storage_denied_def
          window_localStorage_def read_storage_def)
  show ?thesis
    using getAuthHeader_shape
            [of "credentials_config [] (js ''me'') (js ''secret'')" server_host]
          getAuthHeader_shape [of "credentials_config [] [] []" server_host]
          getAuthHeader_shape [of "credentials_config [] [0x4E2D] (js ''p'')" server_host]
          getAuthHeader_shape [of "credentials_config [] [] []" browser_storage_denied]
          run none raise denied
    by (simp add: credentials_config_def)
qed

end
